theory Spec2Isabelle
  imports Main "HOL-Library.Word" "HOL-Library.Log_Nat"
begin

section \<open>JavaScript values used by DepositBox.tsx\<close>

text \<open>
  A JavaScript string is a sequence of UTF-16 code units. \<open>str\<close> writes an ASCII literal
  as such a sequence.
\<close>

type_synonym jsstring = "16 word list"

definition str :: "string \<Rightarrow> jsstring" where
  "str s = map of_char s"

text \<open>
  A JavaScript number is an IEEE 754 binary64 value: not-a-number, an infinity, or a
  finite value, kept here as the rational it denotes. The sign of zero is dropped
  (\<open>-0\<close> and \<open>+0\<close> compare equal, and the component never hands a zero on).
\<close>

datatype number = NaN | PosInfinity | NegInfinity | Finite rat

definition isNaN :: "number \<Rightarrow> bool" where
  "isNaN n = (n = NaN)"

text \<open>\<open>n <= 0\<close>: every comparison with NaN is false.\<close>

definition le0 :: "number \<Rightarrow> bool" where
  "le0 n = (case n of NaN \<Rightarrow> False | PosInfinity \<Rightarrow> False | NegInfinity \<Rightarrow> True
            | Finite q \<Rightarrow> q \<le> 0)"

definition negate :: "number \<Rightarrow> number" where
  "negate n = (case n of NaN \<Rightarrow> NaN | PosInfinity \<Rightarrow> NegInfinity
               | NegInfinity \<Rightarrow> PosInfinity | Finite q \<Rightarrow> Finite (- q))"

subsection \<open>Rounding a non-negative rational to binary64\<close>

definition pow2 :: "int \<Rightarrow> rat" where
  "pow2 e = (if 0 \<le> e then 2 ^ nat e else 1 / 2 ^ nat (- e))"

definition pow10 :: "int \<Rightarrow> rat" where
  "pow10 e = (if 0 \<le> e then 10 ^ nat e else 1 / 10 ^ nat (- e))"

text \<open>\<open>ilog2 q\<close> is the integer \<open>e\<close> with \<open>2^e \<le> q < 2^(e+1)\<close>, for \<open>q > 0\<close>.\<close>

definition ilog2 :: "rat \<Rightarrow> int" where
  "ilog2 q = (let (a, b) = quotient_of q; e0 = bitlen a - bitlen b
              in if pow2 e0 \<le> q then e0 else e0 - 1)"

definition roundTiesToEven :: "rat \<Rightarrow> int" where
  "roundTiesToEven x =
     (let f = \<lfloor>x\<rfloor>; d = x - of_int f
      in if d < 1 / 2 then f else if 1 / 2 < d then f + 1
         else if even f then f else f + 1)"

text \<open>
  The Number value for a mathematical value \<open>q \<ge> 0\<close>: the nearest binary64 value, ties
  to the even significand; from \<open>2^1024 - 2^970\<close> on, the nearest one is \<open>2^1024\<close>, which
  is replaced by infinity. Below that, the spacing of binary64 values around \<open>q\<close> is
  \<open>2^(e - 52)\<close> with \<open>e\<close> the exponent of \<open>q\<close>, at least \<open>-1022\<close> (subnormal range).
\<close>

definition toDouble :: "rat \<Rightarrow> number" where
  "toDouble q =
     (if q = 0 then Finite 0
      else if 2 ^ 1024 - 2 ^ 970 \<le> q then PosInfinity
      else let e = max (ilog2 q) (- 1022); ulp = pow2 (e - 52)
           in Finite (of_int (roundTiesToEven (q / ulp)) * ulp))"

subsection \<open>parseFloat\<close>

definition isDigit :: "16 word \<Rightarrow> bool" where
  "isDigit c = (0x30 \<le> c \<and> c \<le> 0x39)"

text \<open>White space and line terminators, as trimmed by \<open>parseFloat\<close>.\<close>

definition isWhiteSpace :: "16 word \<Rightarrow> bool" where
  "isWhiteSpace c =
     (c \<in> set [0x9, 0xA, 0xB, 0xC, 0xD, 0x20, 0xA0, 0x1680, 0x2028, 0x2029, 0x202F,
                0x205F, 0x3000, 0xFEFF]
      \<or> (0x2000 \<le> c \<and> c \<le> 0x200A))"

definition digitsValue :: "jsstring \<Rightarrow> int" where
  "digitsValue ds = foldl (\<lambda>acc c. 10 * acc + (uint c - 48)) 0 ds"

text \<open>
  The exponent part \<open>e\<close>/\<open>E\<close>, optional sign, digits; without digits there is no
  exponent part and the literal ends before the \<open>e\<close>.
\<close>

definition exponentPart :: "jsstring \<Rightarrow> int" where
  "exponentPart r =
     (case r of
        [] \<Rightarrow> 0
      | c # r1 \<Rightarrow>
          if c = 0x65 \<or> c = 0x45 then
            (case r1 of
               [] \<Rightarrow> 0
             | s # r2 \<Rightarrow>
                 if s = 0x2D then - digitsValue (takeWhile isDigit r2)
                 else if s = 0x2B then digitsValue (takeWhile isDigit r2)
                 else digitsValue (takeWhile isDigit r1))
          else 0)"

text \<open>
  \<open>parseFloat\<close> of ECMAScript: trim leading white space, take the longest prefix that
  is a StrDecimalLiteral (optional sign, then \<open>Infinity\<close> or decimal digits with an
  optional fraction and exponent), NaN when there is none, otherwise the Number value of
  that literal. Literals of more than 20 significant digits are rounded exactly, as the
  engines do.
\<close>

definition parseFloat :: "jsstring \<Rightarrow> number" where
  "parseFloat inputString =
     (let trimmed = dropWhile isWhiteSpace inputString;
          neg = (case trimmed of [] \<Rightarrow> False | c # _ \<Rightarrow> c = 0x2D);
          unsigned = (case trimmed of [] \<Rightarrow> []
                      | c # r \<Rightarrow> if c = 0x2D \<or> c = 0x2B then r else trimmed)
      in if take 8 unsigned = str ''Infinity''
         then (if neg then NegInfinity else PosInfinity)
         else
           let ip = takeWhile isDigit unsigned;
               r1 = dropWhile isDigit unsigned;
               hasDot = (case r1 of [] \<Rightarrow> False | c # _ \<Rightarrow> c = 0x2E);
               fp = (if hasDot then takeWhile isDigit (tl r1) else []);
               r2 = (if hasDot then dropWhile isDigit (tl r1) else r1)
           in if ip = [] \<and> fp = [] then NaN
              else
                let mv = of_int (digitsValue (ip @ fp))
                           * pow10 (exponentPart r2 - int (length fp))
                in if neg then negate (toDouble mv) else toDouble mv)"

text \<open>\<open>String.prototype.split\<close> with a separator of one code unit.\<close>

fun split :: "'a \<Rightarrow> 'a list \<Rightarrow> 'a list list" where
  "split sep [] = [[]]"
| "split sep (c # cs) =
     (if c = sep then [] # split sep cs
      else (case split sep cs of [] \<Rightarrow> [[c]] | p # ps \<Rightarrow> (c # p) # ps))"

section \<open>The component state and what a handler does\<close>

text \<open>The five \<open>useState\<close> cells of DepositBox; \<open>error\<close> is \<open>string | null\<close>.\<close>

record FormState =
  amount :: jsstring
  selectedMethodId :: jsstring
  isProcessing :: bool
  error :: "jsstring option"
  success :: bool

text \<open>\<open>interface DepositBoxProps\<close>: both callbacks are optional; only whether one was
  passed matters here, a call of it is recorded as an action.\<close>

record DepositBoxProps =
  onClose :: bool
  onSuccess :: bool

text \<open>
  The reason a promise is rejected with (\<open>error: any\<close> in the catch clause):
  \<open>undefined\<close>, \<open>null\<close>, or any other value, of which the handler reads the
  \<open>message\<close> property only: a string, or missing.
\<close>

datatype reason = Undefined | Null | Value "jsstring option"

text \<open>How the promise returned by \<open>deposit\<close> settles.\<close>

datatype outcome = Resolved | Rejected reason

text \<open>Reading a property of \<open>undefined\<close> or \<open>null\<close> throws a TypeError.\<close>

datatype exception = TypeError

text \<open>
  What a handler does, in program order: calls of the state setters, of the external
  operations and callbacks, and of \<open>setTimeout\<close> with the actions of its callback and
  the delay in milliseconds; and an exception raised where nothing catches it.
\<close>

datatype action =
    PreventDefault
  | SetAmount jsstring
  | SetSelectedMethodId jsstring
  | SetIsProcessing bool
  | SetError "jsstring option"
  | SetSuccess bool
  | Deposit number jsstring
  | OnSuccess number
  | OnClose
  | SetTimeout "action list" nat
  | Throw exception

fun exec :: "action \<Rightarrow> FormState \<Rightarrow> FormState" where
  "exec (SetAmount v) st = st\<lparr>amount := v\<rparr>"
| "exec (SetSelectedMethodId v) st = st\<lparr>selectedMethodId := v\<rparr>"
| "exec (SetIsProcessing b) st = st\<lparr>isProcessing := b\<rparr>"
| "exec (SetError e) st = st\<lparr>error := e\<rparr>"
| "exec (SetSuccess b) st = st\<lparr>success := b\<rparr>"
| "exec _ st = st"

definition run :: "action list \<Rightarrow> FormState \<Rightarrow> FormState" where
  "run as st = fold exec as st"

section \<open>handleAmountChange\<close>

definition handleAmountChange :: "jsstring \<Rightarrow> action list" where
  "handleAmountChange raw =
     (let value = filter (\<lambda>c. isDigit c \<or> c = 0x2E) raw
      in if 2 < length (split 0x2E value) then []
         else
           let parts = split 0x2E value
           in if (case parts of _ # p # _ \<Rightarrow> p \<noteq> [] \<and> 2 < length p | _ \<Rightarrow> False) then []
              else [SetAmount value])"

definition updateAmount :: "FormState \<Rightarrow> jsstring \<Rightarrow> FormState" where
  "updateAmount st raw = run (handleAmountChange raw) st"

section \<open>handleSubmit\<close>

text \<open>
  The handler reads \<open>amount\<close> and \<open>selectedMethodId\<close> of the render it was created in
  (\<open>st\<close>), the payment methods and \<open>deposit\<close> of the payment context and \<open>t\<close> of the
  language context. Of a payment method it reads nothing, only the length of the list.
  A \<open>return\<close> inside \<open>try\<close> still runs the \<open>finally\<close> clause. The handler is
  suspended at \<open>await\<close> and goes on when the promise has settled; \<open>deposit\<close> gives
  the way it settles. The callbacks and \<open>t\<close> return normally. \<open>resetForm\<close> is the
  callback handed to \<open>setTimeout\<close>. In the catch clause \<open>error.message\<close> is read
  before \<open>setError\<close> is called: on a reason that is \<open>undefined\<close> or \<open>null\<close> the
  read throws, \<open>setError\<close> is not called, the \<open>finally\<close> clause runs and the
  exception leaves the handler. An empty message is falsy, as a missing one is.
\<close>

definition resetForm :: "DepositBoxProps \<Rightarrow> action list" where
  "resetForm props = [SetAmount [], SetSuccess False] @ (if onClose props then [OnClose] else [])"

definition handleSubmit ::
  "DepositBoxProps \<Rightarrow> 'm list \<Rightarrow> (number \<Rightarrow> jsstring \<Rightarrow> outcome) \<Rightarrow> (jsstring \<Rightarrow> jsstring)
     \<Rightarrow> FormState \<Rightarrow> action list" where
  "handleSubmit props paymentMethods deposit t st =
     [PreventDefault, SetError None] @
     (let numAmount = parseFloat (amount st)
      in if isNaN numAmount \<or> le0 numAmount then [SetError (Some (t (str ''invalid_amount'')))]
         else if selectedMethodId st = [] \<and> 0 < length paymentMethods
         then [SetError (Some (t (str ''select_payment_method'')))]
         else
           [SetIsProcessing True, Deposit numAmount (selectedMethodId st)] @
           (case deposit numAmount (selectedMethodId st) of
              Resolved \<Rightarrow>
                [SetSuccess True] @ (if onSuccess props then [OnSuccess numAmount] else []) @
                [SetTimeout (resetForm props) 2000]
            | Rejected reason \<Rightarrow>
                (case reason of
                   Undefined \<Rightarrow> [Throw TypeError]
                 | Null \<Rightarrow> [Throw TypeError]
                 | Value message \<Rightarrow>
                     [SetError (Some (case message of None \<Rightarrow> t (str ''deposit_error'')
                                      | Some m \<Rightarrow>
                                          if m = [] then t (str ''deposit_error'') else m))])))
     @ [SetIsProcessing False]"

text \<open>The \<open>disabled\<close> attribute of the submit button.\<close>

definition submitDisabled :: "FormState \<Rightarrow> bool" where
  "submitDisabled st = (isProcessing st \<or> amount st = [] \<or> le0 (parseFloat (amount st)))"

text \<open>
  A press of the submit button: a disabled submit button does not submit its form, so
  \<open>handleSubmit\<close> runs only while the button is enabled.
\<close>

definition clickSubmit ::
  "DepositBoxProps \<Rightarrow> 'm list \<Rightarrow> (number \<Rightarrow> jsstring \<Rightarrow> outcome) \<Rightarrow> (jsstring \<Rightarrow> jsstring)
     \<Rightarrow> FormState \<Rightarrow> action list" where
  "clickSubmit props paymentMethods deposit t st =
     (if submitDisabled st then [] else handleSubmit props paymentMethods deposit t st)"

section \<open>The operations as the specification words them\<close>

text \<open>The code units after the first decimal point; none when there is no point.\<close>

definition afterPoint :: "jsstring \<Rightarrow> jsstring" where
  "afterPoint s = drop 1 (dropWhile (\<lambda>c. c \<noteq> 0x2E) s)"

text \<open>
  \<open>updateAmount\<close> in the words of the specification: strip everything but digits and
  the decimal point; with more than one point, or more than two digits after the point,
  keep the state; otherwise replace the amount text.
\<close>

definition updateAmount_spec :: "FormState \<Rightarrow> jsstring \<Rightarrow> FormState" where
  "updateAmount_spec st raw =
     (let stripped = filter (\<lambda>c. isDigit c \<or> c = 0x2E) raw
      in if 1 < count_list stripped 0x2E \<or> 2 < length (afterPoint stripped) then st
         else st\<lparr>amount := stripped\<rparr>)"

text \<open>A positive finite number, as the specification calls a valid amount.\<close>

definition positiveFinite :: "number \<Rightarrow> bool" where
  "positiveFinite n = (case n of Finite q \<Rightarrow> 0 < q | _ \<Rightarrow> False)"

section \<open>Sample environments and states\<close>

text \<open>The state after the five \<open>useState\<close> calls, with no default payment method.\<close>

definition initialState :: FormState where
  "initialState =
     \<lparr>amount = [], selectedMethodId = [], isProcessing = False, error = None, success = False\<rparr>"

text \<open>A localization that answers every key with the key itself.\<close>

definition tKey :: "jsstring \<Rightarrow> jsstring" where
  "tKey k = k"

text \<open>
  Deposit operations that always resolve, reject with an error that has a message, with
  one that has none, and with no reason at all (\<open>Promise.reject()\<close>).
\<close>

definition depositResolves :: "number \<Rightarrow> jsstring \<Rightarrow> outcome" where
  "depositResolves n m = Resolved"

definition depositDeclines :: "number \<Rightarrow> jsstring \<Rightarrow> outcome" where
  "depositDeclines n m = Rejected (Value (Some (str ''Card declined'')))"

definition depositFails :: "number \<Rightarrow> jsstring \<Rightarrow> outcome" where
  "depositFails n m = Rejected (Value None)"

definition depositRejectsUndefined :: "number \<Rightarrow> jsstring \<Rightarrow> outcome" where
  "depositRejectsUndefined n m = Rejected Undefined"

section \<open>Facts about split and run\<close>

lemma split_not_Nil: "split sep xs \<noteq> []"
  by (induction xs) (auto split: list.splits)

lemma length_split: "length (split sep xs) = Suc (count_list xs sep)"
proof (induction xs)
  case Nil
  show ?case by simp
next
  case (Cons c cs)
  then show ?case
    using split_not_Nil [of sep cs] by (cases "split sep cs") auto
qed

lemma split_without_sep: "sep \<notin> set xs \<Longrightarrow> split sep xs = [xs]"
  by (induction xs) auto

lemma split_at_first_sep:
  "sep \<in> set xs \<Longrightarrow>
     split sep xs
       = takeWhile (\<lambda>c. c \<noteq> sep) xs # split sep (drop 1 (dropWhile (\<lambda>c. c \<noteq> sep) xs))"
  by (induction xs) auto

lemma count_after_first_sep:
  "sep \<in> set xs \<Longrightarrow>
     count_list xs sep = Suc (count_list (drop 1 (dropWhile (\<lambda>c. c \<noteq> sep) xs)) sep)"
  by (induction xs) auto

lemma dropWhile_without_sep: "sep \<notin> set xs \<Longrightarrow> dropWhile (\<lambda>c. c \<noteq> sep) xs = []"
  by (induction xs) auto

lemma run_Nil: "run [] st = st"
  by (simp add: run_def)

lemma run_SetAmount: "run [SetAmount v] st = st\<lparr>amount := v\<rparr>"
  by (simp add: run_def)

text \<open>
  With at most one decimal point, the test on \<open>parts[1]\<close> is the test on what follows
  the point: \<open>parts[1]\<close> is undefined without a point and falsy when empty.
\<close>

lemma second_part:
  assumes "count_list v 0x2E \<le> 1"
  shows "(case split 0x2E v of _ # p # _ \<Rightarrow> p \<noteq> [] \<and> 2 < length p | _ \<Rightarrow> False)
           = (2 < length (afterPoint v))"
proof (cases "0x2E \<in> set v")
  case False
  then show ?thesis
    by (simp add: split_without_sep afterPoint_def dropWhile_without_sep)
next
  case True
  with assms have "count_list (afterPoint v) 0x2E = 0"
    using count_after_first_sep [of "0x2E" v] by (simp add: afterPoint_def)
  then have "0x2E \<notin> set (afterPoint v)" by (simp add: count_list_0_iff)
  then have "split 0x2E (afterPoint v) = [afterPoint v]" by (rule split_without_sep)
  with True show ?thesis
    using split_at_first_sep [of "0x2E" v] by (auto simp: afterPoint_def)
qed

lemma handleAmountChange_cases:
  "handleAmountChange raw = [] \<or>
   handleAmountChange raw = [SetAmount (filter (\<lambda>c. isDigit c \<or> c = 0x2E) raw)]"
  by (simp add: handleAmountChange_def Let_def)

section \<open>Values of parseFloat\<close>

lemma parseFloat_empty: "parseFloat [] = NaN"
  by (simp add: parseFloat_def str_def)

lemma parseFloat_point: "parseFloat (str ''.'') = NaN"
  by (simp add: parseFloat_def str_def isWhiteSpace_def isDigit_def)

lemma parseFloat_0: "parseFloat (str ''0'') = Finite 0"
  by (simp add: parseFloat_def str_def isWhiteSpace_def isDigit_def digitsValue_def
      exponentPart_def pow10_def toDouble_def)

lemma ilog2_5: "ilog2 5 = 2"
  by code_simp

lemma ilog2_25_5: "ilog2 (51 / 2) = 4"
  by code_simp

lemma toDouble_5: "toDouble 5 = Finite 5"
  by (simp add: toDouble_def ilog2_5 pow2_def roundTiesToEven_def)

lemma toDouble_25_5: "toDouble (51 / 2) = Finite (51 / 2)"
  by (simp add: toDouble_def ilog2_25_5 pow2_def roundTiesToEven_def)

lemma parseFloat_5: "parseFloat (str ''5'') = Finite 5"
  by (simp add: parseFloat_def str_def isWhiteSpace_def isDigit_def digitsValue_def
      exponentPart_def pow10_def toDouble_5)

lemma parseFloat_25_5: "parseFloat (str ''25.5'') = Finite (51 / 2)"
  by (simp add: parseFloat_def str_def isWhiteSpace_def isDigit_def digitsValue_def
      exponentPart_def pow10_def toDouble_25_5)

lemma foldl_nines:
  "uint c - 48 = 9 \<Longrightarrow>
     foldl (\<lambda>acc c. 10 * acc + (uint c - 48)) a (replicate n c) = 10 ^ n * (a + 1) - 1"
  by (induction n arbitrary: a) (simp_all add: algebra_simps)

lemma digitsValue_nines: "digitsValue (replicate n 0x39) = 10 ^ n - 1"
proof -
  have "uint (0x39 :: 16 word) - 48 = 9" by simp
  from foldl_nines [OF this, of 0 n] show ?thesis by (simp add: digitsValue_def)
qed

text \<open>A text of 309 or more nines is beyond the binary64 range.\<close>

lemma parseFloat_nines:
  assumes "309 \<le> n"
  shows "parseFloat (replicate n 0x39) = PosInfinity"
proof -
  define s where "s = replicate n (0x39 :: 16 word)"
  from assms obtain m where "n = Suc m" by (cases n) auto
  then have s: "s = 0x39 # replicate m 0x39" by (simp add: s_def)
  have trimmed: "dropWhile isWhiteSpace s = s"
    by (simp add: s isWhiteSpace_def)
  have neg: "(case s of [] \<Rightarrow> False | c # _ \<Rightarrow> c = 0x2D) = False"
    by (simp add: s)
  have unsigned: "(case s of [] \<Rightarrow> [] | c # r \<Rightarrow> if c = 0x2D \<or> c = 0x2B then r else s) = s"
    by (simp add: s)
  have inf: "take 8 s \<noteq> str ''Infinity''"
    by (simp add: s str_def)
  have ip: "takeWhile isDigit s = s" and r1: "dropWhile isDigit s = []"
    by (simp_all add: s_def isDigit_def)
  have ne: "s \<noteq> []" by (simp add: s)
  have dv: "digitsValue s = 10 ^ n - 1"
    by (simp add: s_def digitsValue_nines)
  have "(10::rat) ^ 309 \<le> 10 ^ n"
    using assms by (intro power_increasing) auto
  then have big: "(2::rat) ^ 1024 - 2 ^ 970 \<le> 10 ^ n - 1" by simp
  then have "(10::rat) ^ n - 1 \<noteq> 0" by auto
  with big have "toDouble (10 ^ n - 1) = PosInfinity"
    by (simp add: toDouble_def)
  then have "parseFloat s = PosInfinity"
    by (simp add: parseFloat_def Let_def trimmed neg unsigned inf ip r1 ne dv exponentPart_def
        pow10_def)
  then show ?thesis by (simp add: s_def)
qed

section \<open>The paths through handleSubmit\<close>

lemma handleSubmit_invalid:
  assumes "isNaN (parseFloat (amount st)) \<or> le0 (parseFloat (amount st))"
  shows "handleSubmit props paymentMethods deposit t st =
           [PreventDefault, SetError None, SetError (Some (t (str ''invalid_amount''))),
            SetIsProcessing False]"
  using assms by (simp add: handleSubmit_def Let_def)

lemma handleSubmit_no_method:
  assumes "\<not> isNaN (parseFloat (amount st))" and "\<not> le0 (parseFloat (amount st))"
    and "selectedMethodId st = []" and "paymentMethods \<noteq> []"
  shows "handleSubmit props paymentMethods deposit t st =
           [PreventDefault, SetError None, SetError (Some (t (str ''select_payment_method''))),
            SetIsProcessing False]"
  using assms by (simp add: handleSubmit_def Let_def)

lemma handleSubmit_resolved:
  assumes "\<not> isNaN (parseFloat (amount st))" and "\<not> le0 (parseFloat (amount st))"
    and "selectedMethodId st \<noteq> [] \<or> paymentMethods = []"
    and "deposit (parseFloat (amount st)) (selectedMethodId st) = Resolved"
  shows "handleSubmit props paymentMethods deposit t st =
           [PreventDefault, SetError None, SetIsProcessing True,
            Deposit (parseFloat (amount st)) (selectedMethodId st), SetSuccess True] @
           (if onSuccess props then [OnSuccess (parseFloat (amount st))] else []) @
           [SetTimeout (resetForm props) 2000, SetIsProcessing False]"
  using assms by (auto simp: handleSubmit_def Let_def)

lemma handleSubmit_rejected:
  assumes "\<not> isNaN (parseFloat (amount st))" and "\<not> le0 (parseFloat (amount st))"
    and "selectedMethodId st \<noteq> [] \<or> paymentMethods = []"
    and "deposit (parseFloat (amount st)) (selectedMethodId st) = Rejected (Value message)"
  shows "handleSubmit props paymentMethods deposit t st =
           [PreventDefault, SetError None, SetIsProcessing True,
            Deposit (parseFloat (amount st)) (selectedMethodId st),
            SetError (Some (case message of None \<Rightarrow> t (str ''deposit_error'')
                            | Some m \<Rightarrow> if m = [] then t (str ''deposit_error'') else m)),
            SetIsProcessing False]"
  using assms by (auto simp: handleSubmit_def Let_def)

lemma handleSubmit_rejected_nullish:
  assumes "\<not> isNaN (parseFloat (amount st))" and "\<not> le0 (parseFloat (amount st))"
    and "selectedMethodId st \<noteq> [] \<or> paymentMethods = []"
    and "deposit (parseFloat (amount st)) (selectedMethodId st) = Rejected reason"
    and "reason = Undefined \<or> reason = Null"
  shows "handleSubmit props paymentMethods deposit t st =
           [PreventDefault, SetError None, SetIsProcessing True,
            Deposit (parseFloat (amount st)) (selectedMethodId st), Throw TypeError,
            SetIsProcessing False]"
  using assms by (auto simp: handleSubmit_def Let_def)

section \<open>The amount input\<close>

text \<open>
  C1. For every current state and every raw input, \<open>updateAmount\<close> strips all code
  units other than digits and the decimal point from the raw input; if the stripped text
  has more than one decimal point, or more than two digits after the point, the state is
  left as it is, otherwise the amount text becomes the stripped text: the handler does
  what \<open>updateAmount_spec\<close> says.
\<close>

theorem updateAmount_refines: "updateAmount st raw = updateAmount_spec st raw"
proof -
  let ?v = "filter (\<lambda>c. isDigit c \<or> c = 0x2E) raw"
  show ?thesis
  proof (cases "1 < count_list ?v 0x2E")
    case True
    then show ?thesis
      by (simp add: updateAmount_def updateAmount_spec_def handleAmountChange_def length_split
          run_Nil)
  next
    case False
    then have "count_list ?v 0x2E \<le> 1" by simp
    from second_part [OF this] False show ?thesis
      by (simp add: updateAmount_def updateAmount_spec_def handleAmountChange_def length_split
          run_Nil run_SetAmount Let_def)
  qed
qed

text \<open>
  The two scenarios of the specification: a third fractional digit and a second decimal
  point are rejected; and an accepted input, stripped of its currency sign.
\<close>

theorem updateAmount_refines_witness:
  "amount (updateAmount (initialState\<lparr>amount := str ''12.34''\<rparr>) (str ''12.345'')) = str ''12.34'' \<and>
   amount (updateAmount (initialState\<lparr>amount := str ''1.2''\<rparr>) (str ''1.2.3'')) = str ''1.2'' \<and>
   amount (updateAmount (initialState\<lparr>amount := str ''12.3''\<rparr>) (str ''$12.34'')) = str ''12.34''"
  using updateAmount_refines [of "initialState\<lparr>amount := str ''12.34''\<rparr>" "str ''12.345''"]
    updateAmount_refines [of "initialState\<lparr>amount := str ''1.2''\<rparr>" "str ''1.2.3''"]
    updateAmount_refines [of "initialState\<lparr>amount := str ''12.3''\<rparr>" "str ''$12.34''"]
  by (simp add: updateAmount_spec_def afterPoint_def isDigit_def str_def initialState_def)

text \<open>
  C9. \<open>updateAmount\<close> is idempotent under repeated identical input: for every state and
  every raw input, applying it twice with the same raw input gives the state that
  applying it once gives.
\<close>

theorem updateAmount_idempotent:
  "updateAmount (updateAmount st raw) raw = updateAmount st raw"
  using handleAmountChange_cases [of raw]
  by (auto simp: updateAmount_def run_Nil run_SetAmount)

theorem updateAmount_idempotent_witness:
  "updateAmount (updateAmount initialState (str ''7.5'')) (str ''7.5'')
     = updateAmount initialState (str ''7.5'') \<and>
   amount (updateAmount initialState (str ''7.5'')) = str ''7.5''"
  using updateAmount_idempotent [of initialState "str ''7.5''"]
  by (simp add: updateAmount_def handleAmountChange_def run_def isDigit_def str_def
      initialState_def)

section \<open>Submitting\<close>

text \<open>
  C2, as the code has it. For every amount text whose parse is NaN or not greater than
  zero (the empty text and the text 0 among them), submit sets the error message to the
  invalid-amount localization and aborts: the deposit operation is not invoked and the
  processing flag is never set to true (the \<open>finally\<close> clause writes false). A parse
  that is positive but not finite is not covered: the handler tests \<open>isNaN\<close> and
  \<open><= 0\<close> only.
\<close>

theorem submit_invalid_amount:
  assumes "isNaN (parseFloat (amount st)) \<or> le0 (parseFloat (amount st))"
  shows "handleSubmit props paymentMethods deposit t st =
           [PreventDefault, SetError None, SetError (Some (t (str ''invalid_amount''))),
            SetIsProcessing False] \<and>
         error (run (handleSubmit props paymentMethods deposit t st) st)
           = Some (t (str ''invalid_amount'')) \<and>
         (\<forall>n m. Deposit n m \<notin> set (handleSubmit props paymentMethods deposit t st)) \<and>
         SetIsProcessing True \<notin> set (handleSubmit props paymentMethods deposit t st)"
  by (simp add: handleSubmit_invalid [OF assms] run_def)

theorem submit_invalid_amount_witness:
  "isNaN (parseFloat (amount initialState)) \<and>
   error (run (handleSubmit \<lparr>onClose = True, onSuccess = True\<rparr> [str ''m1''] depositResolves tKey
            initialState) initialState) = Some (str ''invalid_amount'') \<and>
   le0 (parseFloat (amount (initialState\<lparr>amount := str ''0''\<rparr>))) \<and>
   error (run (handleSubmit \<lparr>onClose = True, onSuccess = True\<rparr> [str ''m1''] depositResolves tKey
            (initialState\<lparr>amount := str ''0''\<rparr>)) (initialState\<lparr>amount := str ''0''\<rparr>))
     = Some (str ''invalid_amount'')"
proof -
  have a: "isNaN (parseFloat (amount initialState))"
    by (simp add: initialState_def parseFloat_empty isNaN_def)
  have b: "le0 (parseFloat (amount (initialState\<lparr>amount := str ''0''\<rparr>)))"
    by (simp add: parseFloat_0 le0_def)
  from a have a': "isNaN (parseFloat (amount initialState)) \<or> le0 (parseFloat (amount initialState))"
    by simp
  from b have b': "isNaN (parseFloat (amount (initialState\<lparr>amount := str ''0''\<rparr>)))
      \<or> le0 (parseFloat (amount (initialState\<lparr>amount := str ''0''\<rparr>)))"
    by simp
  show ?thesis
    using a b submit_invalid_amount [OF a', of "\<lparr>onClose = True, onSuccess = True\<rparr>" "[str ''m1'']"
        depositResolves tKey]
      submit_invalid_amount [OF b', of "\<lparr>onClose = True, onSuccess = True\<rparr>" "[str ''m1'']"
        depositResolves tKey]
    by (simp add: tKey_def run_def)
qed

text \<open>
  C2 as stated fails: the amount input accepts 400 nines, they parse to Infinity, which
  is not a positive finite number, and submit goes on to invoke the deposit operation
  with it.
\<close>

theorem submit_infinite_amount_counterexample:
  "amount (updateAmount initialState (replicate 400 0x39)) = replicate 400 0x39 \<and>
   \<not> positiveFinite (parseFloat (replicate 400 0x39)) \<and>
   handleSubmit \<lparr>onClose = False, onSuccess = False\<rparr> ([] :: jsstring list) depositResolves tKey
       (initialState\<lparr>amount := replicate 400 0x39\<rparr>)
     = [PreventDefault, SetError None, SetIsProcessing True, Deposit PosInfinity [],
        SetSuccess True, SetTimeout [SetAmount [], SetSuccess False] 2000,
        SetIsProcessing False]"
proof -
  have "parseFloat (replicate 400 0x39) = PosInfinity"
    by (rule parseFloat_nines) simp
  moreover have "amount (updateAmount initialState (replicate 400 0x39)) = replicate 400 0x39"
    by (simp add: updateAmount_def handleAmountChange_def isDigit_def split_without_sep
        run_SetAmount)
  ultimately show ?thesis
    by (simp add: positiveFinite_def handleSubmit_def isNaN_def le0_def initialState_def
        depositResolves_def resetForm_def)
qed

text \<open>
  C3, as the code has it. For every state in which at least one payment method is
  available and no method is selected, submit does not invoke the deposit operation; it
  yields the MethodRequired error (the select-payment-method localization) when the
  amount is valid, that is, when its parse is neither NaN nor at most zero. The amount
  is validated first.
\<close>

theorem submit_method_required:
  assumes "paymentMethods \<noteq> []" and "selectedMethodId st = []"
  shows "(\<forall>n m. Deposit n m \<notin> set (handleSubmit props paymentMethods deposit t st)) \<and>
         (\<not> isNaN (parseFloat (amount st)) \<and> \<not> le0 (parseFloat (amount st)) \<longrightarrow>
            handleSubmit props paymentMethods deposit t st =
              [PreventDefault, SetError None,
               SetError (Some (t (str ''select_payment_method''))), SetIsProcessing False] \<and>
            error (run (handleSubmit props paymentMethods deposit t st) st)
              = Some (t (str ''select_payment_method'')))"
proof (cases "isNaN (parseFloat (amount st)) \<or> le0 (parseFloat (amount st))")
  case True
  then show ?thesis
    by (auto simp: handleSubmit_invalid [OF True])
next
  case False
  then have "handleSubmit props paymentMethods deposit t st =
      [PreventDefault, SetError None, SetError (Some (t (str ''select_payment_method''))),
       SetIsProcessing False]"
    using assms by (intro handleSubmit_no_method) auto
  then show ?thesis by (simp add: run_def)
qed

theorem submit_method_required_witness:
  "\<not> isNaN (parseFloat (str ''5'')) \<and> \<not> le0 (parseFloat (str ''5'')) \<and>
   error (run (handleSubmit \<lparr>onClose = True, onSuccess = True\<rparr> [str ''m1''] depositResolves tKey
            (initialState\<lparr>amount := str ''5''\<rparr>)) (initialState\<lparr>amount := str ''5''\<rparr>))
     = Some (str ''select_payment_method'')"
proof -
  have m: "[str ''m1''] \<noteq> []" by simp
  have s: "selectedMethodId (initialState\<lparr>amount := str ''5''\<rparr>) = []"
    by (simp add: initialState_def)
  show ?thesis
    using submit_method_required [OF m s, of "\<lparr>onClose = True, onSuccess = True\<rparr>"
        depositResolves tKey]
    by (simp add: parseFloat_5 isNaN_def le0_def tKey_def run_def)
qed

text \<open>
  C3 as stated fails: with a method available and none selected, the amount text of a
  lone decimal point, which the amount input accepts, yields the InvalidAmount error,
  not MethodRequired.
\<close>

theorem submit_method_required_counterexample:
  "amount (updateAmount initialState (str ''.'')) = str ''.'' \<and>
   error (run (handleSubmit \<lparr>onClose = True, onSuccess = True\<rparr> [str ''m1''] depositResolves tKey
            (initialState\<lparr>amount := str ''.''\<rparr>)) (initialState\<lparr>amount := str ''.''\<rparr>))
     = Some (tKey (str ''invalid_amount'')) \<and>
   tKey (str ''invalid_amount'') \<noteq> tKey (str ''select_payment_method'')"
proof -
  have "handleSubmit \<lparr>onClose = True, onSuccess = True\<rparr> [str ''m1''] depositResolves tKey
          (initialState\<lparr>amount := str ''.''\<rparr>)
        = [PreventDefault, SetError None, SetError (Some (tKey (str ''invalid_amount''))),
           SetIsProcessing False]"
    by (rule handleSubmit_invalid) (simp add: parseFloat_point isNaN_def)
  moreover have "amount (updateAmount initialState (str ''.'')) = str ''.''"
    by (simp add: updateAmount_def handleAmountChange_def isDigit_def str_def run_def)
  ultimately show ?thesis
    by (simp add: run_def tKey_def str_def)
qed

text \<open>
  C4. For every submit whose validations pass and whose deposit operation resolves, the
  handler sets the success flag, invokes the success callback (when one was passed)
  exactly once, with the parsed amount, and schedules with a delay of 2000 milliseconds
  a callback that resets the amount text to empty, clears the success flag and invokes
  the close callback exactly once if one was passed. Nothing else invokes a callback.
\<close>

theorem submit_success:
  assumes "\<not> isNaN (parseFloat (amount st))" and "\<not> le0 (parseFloat (amount st))"
    and "selectedMethodId st \<noteq> [] \<or> paymentMethods = []"
    and "deposit (parseFloat (amount st)) (selectedMethodId st) = Resolved"
  shows "handleSubmit props paymentMethods deposit t st =
           [PreventDefault, SetError None, SetIsProcessing True,
            Deposit (parseFloat (amount st)) (selectedMethodId st), SetSuccess True] @
           (if onSuccess props then [OnSuccess (parseFloat (amount st))] else []) @
           [SetTimeout ([SetAmount [], SetSuccess False] @ (if onClose props then [OnClose] else []))
              2000,
            SetIsProcessing False] \<and>
         filter (\<lambda>a. \<exists>n. a = OnSuccess n) (handleSubmit props paymentMethods deposit t st)
           = (if onSuccess props then [OnSuccess (parseFloat (amount st))] else []) \<and>
         success (run (handleSubmit props paymentMethods deposit t st) st) \<and>
         amount (run (resetForm props) (run (handleSubmit props paymentMethods deposit t st) st))
           = [] \<and>
         \<not> success (run (resetForm props) (run (handleSubmit props paymentMethods deposit t st) st)) \<and>
         count_list (resetForm props) OnClose = (if onClose props then 1 else 0)"
proof -
  have "handleSubmit props paymentMethods deposit t st =
          [PreventDefault, SetError None, SetIsProcessing True,
           Deposit (parseFloat (amount st)) (selectedMethodId st), SetSuccess True] @
          (if onSuccess props then [OnSuccess (parseFloat (amount st))] else []) @
          [SetTimeout (resetForm props) 2000, SetIsProcessing False]"
    using assms by (rule handleSubmit_resolved)
  then show ?thesis
    by (simp add: resetForm_def run_def)
qed

text \<open>
  The scenario of the specification: 25.5 on method m1. The success callback is invoked
  once with 25.5, the timer is set to 2000 ms, and its callback invokes the close callback.
\<close>

theorem submit_success_witness:
  "parseFloat (str ''25.5'') = Finite (51 / 2) \<and>
   handleSubmit \<lparr>onClose = True, onSuccess = True\<rparr> [str ''m1''] depositResolves tKey
       (initialState\<lparr>amount := str ''25.5'', selectedMethodId := str ''m1''\<rparr>)
     = [PreventDefault, SetError None, SetIsProcessing True, Deposit (Finite (51 / 2)) (str ''m1''),
        SetSuccess True, OnSuccess (Finite (51 / 2)),
        SetTimeout [SetAmount [], SetSuccess False, OnClose] 2000, SetIsProcessing False]"
proof -
  let ?st = "initialState\<lparr>amount := str ''25.5'', selectedMethodId := str ''m1''\<rparr>"
  have a: "\<not> isNaN (parseFloat (amount ?st))" and b: "\<not> le0 (parseFloat (amount ?st))"
    by (simp_all add: parseFloat_25_5 isNaN_def le0_def)
  have c: "selectedMethodId ?st \<noteq> [] \<or> [str ''m1''] = []"
    by (simp add: str_def)
  have d: "depositResolves (parseFloat (amount ?st)) (selectedMethodId ?st) = Resolved"
    by (simp add: depositResolves_def)
  show ?thesis
    using submit_success [where st = ?st and deposit = depositResolves
        and paymentMethods = "[str ''m1'']" and props = "\<lparr>onClose = True, onSuccess = True\<rparr>"
        and t = tKey, OF a b c d]
    by (simp add: parseFloat_25_5)
qed

text \<open>
  A deposit that fails with a reason other than \<open>undefined\<close> and \<open>null\<close>: the error
  message is set to the reason's message when it has a non-empty one and to the generic
  fallback localization otherwise.
\<close>

lemma rejected_with_value:
  assumes "\<not> isNaN (parseFloat (amount st))" and "\<not> le0 (parseFloat (amount st))"
    and "selectedMethodId st \<noteq> [] \<or> paymentMethods = []"
    and "deposit (parseFloat (amount st)) (selectedMethodId st) = Rejected (Value message)"
  shows "error (run (handleSubmit props paymentMethods deposit t st) st)
           = Some (case message of None \<Rightarrow> t (str ''deposit_error'')
                   | Some m \<Rightarrow> if m = [] then t (str ''deposit_error'') else m)"
proof -
  have "handleSubmit props paymentMethods deposit t st =
          [PreventDefault, SetError None, SetIsProcessing True,
           Deposit (parseFloat (amount st)) (selectedMethodId st),
           SetError (Some (case message of None \<Rightarrow> t (str ''deposit_error'')
                           | Some m \<Rightarrow> if m = [] then t (str ''deposit_error'') else m)),
           SetIsProcessing False]"
    using assms by (rule handleSubmit_rejected)
  then show ?thesis
    by (simp add: run_def)
qed

text \<open>
  A deposit that fails, with any reason: the success callback is not invoked, the success
  flag is not set and the processing flag returns to false.
\<close>

lemma rejected_no_success:
  assumes "\<not> isNaN (parseFloat (amount st))" and "\<not> le0 (parseFloat (amount st))"
    and "selectedMethodId st \<noteq> [] \<or> paymentMethods = []"
    and "deposit (parseFloat (amount st)) (selectedMethodId st) = Rejected reason"
  shows "(\<forall>n. OnSuccess n \<notin> set (handleSubmit props paymentMethods deposit t st)) \<and>
         SetSuccess True \<notin> set (handleSubmit props paymentMethods deposit t st) \<and>
         success (run (handleSubmit props paymentMethods deposit t st) st) = success st \<and>
         \<not> isProcessing (run (handleSubmit props paymentMethods deposit t st) st)"
proof (cases reason)
  case (Value message)
  with assms have "handleSubmit props paymentMethods deposit t st =
          [PreventDefault, SetError None, SetIsProcessing True,
           Deposit (parseFloat (amount st)) (selectedMethodId st),
           SetError (Some (case message of None \<Rightarrow> t (str ''deposit_error'')
                           | Some m \<Rightarrow> if m = [] then t (str ''deposit_error'') else m)),
           SetIsProcessing False]"
    by (intro handleSubmit_rejected) auto
  then show ?thesis
    by (simp add: run_def)
next
  case Undefined
  with assms have "handleSubmit props paymentMethods deposit t st =
          [PreventDefault, SetError None, SetIsProcessing True,
           Deposit (parseFloat (amount st)) (selectedMethodId st), Throw TypeError,
           SetIsProcessing False]"
    by (intro handleSubmit_rejected_nullish [where reason = reason]) auto
  then show ?thesis
    by (simp add: run_def)
next
  case Null
  with assms have "handleSubmit props paymentMethods deposit t st =
          [PreventDefault, SetError None, SetIsProcessing True,
           Deposit (parseFloat (amount st)) (selectedMethodId st), Throw TypeError,
           SetIsProcessing False]"
    by (intro handleSubmit_rejected_nullish [where reason = reason]) auto
  then show ?thesis
    by (simp add: run_def)
qed

text \<open>
  C5 fails on the code when the deposit operation fails without a reason (it rejects
  with \<open>undefined\<close>): the failure has no message, so the error message should be the
  generic fallback localization, yet reading \<open>error.message\<close> throws a TypeError in
  the catch clause and no error message is set. With the amount 5 and an error left from
  an earlier attempt, the handler clears the error, invokes the deposit operation, throws,
  and ends with no error message; the success callback is not invoked, the success flag
  is not set and the processing flag returns to false.
\<close>

theorem submit_failure_without_reason:
  "depositRejectsUndefined (Finite 5) [] = Rejected Undefined \<and>
   handleSubmit \<lparr>onClose = True, onSuccess = True\<rparr> ([] :: jsstring list) depositRejectsUndefined
       tKey (initialState\<lparr>amount := str ''5'', error := Some (str ''Card declined'')\<rparr>)
     = [PreventDefault, SetError None, SetIsProcessing True, Deposit (Finite 5) [],
        Throw TypeError, SetIsProcessing False] \<and>
   error (run (handleSubmit \<lparr>onClose = True, onSuccess = True\<rparr> ([] :: jsstring list)
                 depositRejectsUndefined tKey
                 (initialState\<lparr>amount := str ''5'', error := Some (str ''Card declined'')\<rparr>))
            (initialState\<lparr>amount := str ''5'', error := Some (str ''Card declined'')\<rparr>))
     = None \<and>
   \<not> isProcessing
       (run (handleSubmit \<lparr>onClose = True, onSuccess = True\<rparr> ([] :: jsstring list)
               depositRejectsUndefined tKey
               (initialState\<lparr>amount := str ''5'', error := Some (str ''Card declined'')\<rparr>))
          (initialState\<lparr>amount := str ''5'', error := Some (str ''Card declined'')\<rparr>))"
proof -
  let ?st = "initialState\<lparr>amount := str ''5'', error := Some (str ''Card declined'')\<rparr>"
  have "handleSubmit \<lparr>onClose = True, onSuccess = True\<rparr> ([] :: jsstring list)
          depositRejectsUndefined tKey ?st
        = [PreventDefault, SetError None, SetIsProcessing True,
           Deposit (parseFloat (amount ?st)) (selectedMethodId ?st), Throw TypeError,
           SetIsProcessing False]"
    by (rule handleSubmit_rejected_nullish [where reason = Undefined])
      (simp_all add: parseFloat_5 isNaN_def le0_def depositRejectsUndefined_def)
  then show ?thesis
    by (simp add: parseFloat_5 initialState_def run_def depositRejectsUndefined_def)
qed

text \<open>
  C6. Whatever path a submit takes (validation abort, deposit success, deposit failure),
  its last action clears the processing flag, so after it the processing flag is false,
  and the processing flag and the success flag are not both true.
\<close>

theorem submit_clears_processing:
  "last (handleSubmit props paymentMethods deposit t st) = SetIsProcessing False \<and>
   \<not> isProcessing (run (handleSubmit props paymentMethods deposit t st) s) \<and>
   \<not> (isProcessing (run (handleSubmit props paymentMethods deposit t st) s) \<and>
      success (run (handleSubmit props paymentMethods deposit t st) s))"
  by (simp add: handleSubmit_def run_def)

theorem submit_clears_processing_witness:
  "\<not> isProcessing (run (handleSubmit \<lparr>onClose = True, onSuccess = True\<rparr> [str ''m1'']
       depositResolves tKey (initialState\<lparr>amount := str ''5'', selectedMethodId := str ''m1''\<rparr>))
     (initialState\<lparr>amount := str ''5'', selectedMethodId := str ''m1''\<rparr>))"
  using submit_clears_processing [of "\<lparr>onClose = True, onSuccess = True\<rparr>" "[str ''m1'']"
      depositResolves tKey "initialState\<lparr>amount := str ''5'', selectedMethodId := str ''m1''\<rparr>"
      "initialState\<lparr>amount := str ''5'', selectedMethodId := str ''m1''\<rparr>"]
  by simp

text \<open>
  C7, as the code has it. For every state in which the processing flag is true the
  submit button is disabled, so a press of it is a no-op: no action is taken, hence no
  state field changes, no error is set and the deposit operation is not invoked. The
  guard is the button's \<open>disabled\<close> attribute; \<open>handleSubmit\<close> itself does not read the
  processing flag.
\<close>

theorem submit_control_guarded:
  assumes "isProcessing st"
  shows "submitDisabled st \<and>
         clickSubmit props paymentMethods deposit t st = [] \<and>
         run (clickSubmit props paymentMethods deposit t st) st = st"
  using assms by (simp add: submitDisabled_def clickSubmit_def run_def)

theorem submit_control_guarded_witness:
  "isProcessing (initialState\<lparr>amount := str ''5'', isProcessing := True\<rparr>) \<and>
   clickSubmit \<lparr>onClose = True, onSuccess = True\<rparr> ([] :: jsstring list) depositResolves tKey
       (initialState\<lparr>amount := str ''5'', isProcessing := True\<rparr>) = []"
proof -
  have p: "isProcessing (initialState\<lparr>amount := str ''5'', isProcessing := True\<rparr>)"
    by simp
  show ?thesis
    using p submit_control_guarded [OF p, of "\<lparr>onClose = True, onSuccess = True\<rparr>"
        "[] :: jsstring list" depositResolves tKey]
    by simp
qed

text \<open>
  C7 as stated fails for the handler: invoked while the processing flag is true, with
  the amount 5 and no payment methods, \<open>handleSubmit\<close> invokes the deposit operation
  again and changes the state.
\<close>

theorem submit_while_processing_counterexample:
  "isProcessing (initialState\<lparr>amount := str ''5'', isProcessing := True\<rparr>) \<and>
   handleSubmit \<lparr>onClose = False, onSuccess = False\<rparr> ([] :: jsstring list) depositResolves tKey
       (initialState\<lparr>amount := str ''5'', isProcessing := True\<rparr>)
     = [PreventDefault, SetError None, SetIsProcessing True, Deposit (Finite 5) [],
        SetSuccess True, SetTimeout [SetAmount [], SetSuccess False] 2000,
        SetIsProcessing False] \<and>
   run (handleSubmit \<lparr>onClose = False, onSuccess = False\<rparr> ([] :: jsstring list) depositResolves
          tKey (initialState\<lparr>amount := str ''5'', isProcessing := True\<rparr>))
       (initialState\<lparr>amount := str ''5'', isProcessing := True\<rparr>)
     \<noteq> initialState\<lparr>amount := str ''5'', isProcessing := True\<rparr>"
proof -
  let ?st = "initialState\<lparr>amount := str ''5'', isProcessing := True\<rparr>"
  have "handleSubmit \<lparr>onClose = False, onSuccess = False\<rparr> ([] :: jsstring list)
          depositResolves tKey ?st
        = [PreventDefault, SetError None, SetIsProcessing True,
           Deposit (parseFloat (amount ?st)) (selectedMethodId ?st), SetSuccess True] @
          (if onSuccess \<lparr>onClose = False, onSuccess = False\<rparr>
           then [OnSuccess (parseFloat (amount ?st))] else []) @
          [SetTimeout (resetForm \<lparr>onClose = False, onSuccess = False\<rparr>) 2000,
           SetIsProcessing False]"
    by (rule handleSubmit_resolved)
      (simp_all add: parseFloat_5 isNaN_def le0_def depositResolves_def)
  then show ?thesis
    by (simp add: parseFloat_5 resetForm_def initialState_def run_def)
qed

text \<open>
  C8 fails on the code at the amount text of a lone decimal point, which the amount
  input accepts: its parse is NaN,
  which is not greater than zero, yet the submit button is enabled, because
  \<open>NaN <= 0\<close> is false; \<open>handleSubmit\<close>, which tests \<open>isNaN\<close> as well, rejects the
  same amount as invalid.
\<close>

theorem submit_enabled_on_lone_point:
  "amount (updateAmount initialState (str ''.'')) = str ''.'' \<and>
   parseFloat (str ''.'') = NaN \<and>
   \<not> submitDisabled (initialState\<lparr>amount := str ''.''\<rparr>) \<and>
   handleSubmit \<lparr>onClose = True, onSuccess = True\<rparr> ([] :: jsstring list) depositResolves tKey
       (initialState\<lparr>amount := str ''.''\<rparr>)
     = [PreventDefault, SetError None, SetError (Some (str ''invalid_amount'')),
        SetIsProcessing False]"
proof -
  have "handleSubmit \<lparr>onClose = True, onSuccess = True\<rparr> ([] :: jsstring list) depositResolves
          tKey (initialState\<lparr>amount := str ''.''\<rparr>)
        = [PreventDefault, SetError None, SetError (Some (tKey (str ''invalid_amount''))),
           SetIsProcessing False]"
    by (rule handleSubmit_invalid) (simp add: parseFloat_point isNaN_def)
  moreover have "str ''.'' \<noteq> []"
    by (simp add: str_def)
  moreover have "amount (updateAmount initialState (str ''.'')) = str ''.''"
    by (simp add: updateAmount_def handleAmountChange_def isDigit_def str_def run_def)
  ultimately show ?thesis
    by (simp add: parseFloat_point submitDisabled_def le0_def initialState_def tKey_def)
qed

text \<open>
  C10, as the code has it. For every state in which the payment-method list is empty
  and the parsed amount passes validation, submit sets no error before it invokes the
  deposit operation, and it invokes it with the selected method id as second argument;
  that is the empty string when no method is selected.
\<close>

theorem submit_without_methods:
  assumes "\<not> isNaN (parseFloat (amount st))" and "\<not> le0 (parseFloat (amount st))"
    and "paymentMethods = []"
  shows "take 4 (handleSubmit props paymentMethods deposit t st)
           = [PreventDefault, SetError None, SetIsProcessing True,
              Deposit (parseFloat (amount st)) (selectedMethodId st)] \<and>
         (selectedMethodId st = [] \<longrightarrow>
            Deposit (parseFloat (amount st)) [] \<in> set (handleSubmit props paymentMethods deposit t st))"
  using assms by (simp add: handleSubmit_def Let_def)

theorem submit_without_methods_witness:
  "take 4 (handleSubmit \<lparr>onClose = True, onSuccess = True\<rparr> ([] :: jsstring list) depositDeclines
             tKey (initialState\<lparr>amount := str ''5''\<rparr>))
     = [PreventDefault, SetError None, SetIsProcessing True, Deposit (Finite 5) []]"
proof -
  let ?st = "initialState\<lparr>amount := str ''5''\<rparr>"
  have a: "\<not> isNaN (parseFloat (amount ?st))" and b: "\<not> le0 (parseFloat (amount ?st))"
    by (simp_all add: parseFloat_5 isNaN_def le0_def)
  have c: "([] :: jsstring list) = []"
    by simp
  show ?thesis
    using submit_without_methods [where st = ?st and paymentMethods = "[] :: jsstring list"
        and props = "\<lparr>onClose = True, onSuccess = True\<rparr>" and deposit = depositDeclines
        and t = tKey, OF a b c]
    by (simp add: parseFloat_5 initialState_def)
qed

text \<open>
  C10 as stated fails when a method id is still selected while the list is empty: the
  deposit operation receives that id, not the empty string.
\<close>

theorem submit_without_methods_counterexample:
  "handleSubmit \<lparr>onClose = False, onSuccess = False\<rparr> ([] :: jsstring list) depositResolves tKey
       (initialState\<lparr>amount := str ''5'', selectedMethodId := str ''m1''\<rparr>)
     = [PreventDefault, SetError None, SetIsProcessing True, Deposit (Finite 5) (str ''m1''),
        SetSuccess True, SetTimeout [SetAmount [], SetSuccess False] 2000,
        SetIsProcessing False] \<and>
   str ''m1'' \<noteq> []"
proof -
  let ?st = "initialState\<lparr>amount := str ''5'', selectedMethodId := str ''m1''\<rparr>"
  have "handleSubmit \<lparr>onClose = False, onSuccess = False\<rparr> ([] :: jsstring list)
          depositResolves tKey ?st
        = [PreventDefault, SetError None, SetIsProcessing True,
           Deposit (parseFloat (amount ?st)) (selectedMethodId ?st), SetSuccess True] @
          (if onSuccess \<lparr>onClose = False, onSuccess = False\<rparr>
           then [OnSuccess (parseFloat (amount ?st))] else []) @
          [SetTimeout (resetForm \<lparr>onClose = False, onSuccess = False\<rparr>) 2000,
           SetIsProcessing False]"
    by (rule handleSubmit_resolved)
      (simp_all add: parseFloat_5 isNaN_def le0_def depositResolves_def)
  moreover have "str ''m1'' \<noteq> []"
    by (simp add: str_def)
  ultimately show ?thesis
    by (simp add: parseFloat_5 resetForm_def)
qed

end
